theory Spec2Isabelle
  imports Main "HOL-Library.Sublist"
begin

section \<open>Python values and strings\<close>

text \<open>
  The scripts read spreadsheet cells with pandas and pass each cell to small cleaning
  helpers. A cell is one of pandas' missing markers or an ordinary scalar. The helpers only
  look at \<open>pd.isna(value)\<close> and at \<open>str(value)\<close>, so a scalar that is neither a
  string, an integer nor a boolean (a finite float, a timestamp, a date) is represented by
  the text \<open>str\<close> gives for it.

  A Python string is a sequence of code points; \<open>string\<close> here holds the code points
  below 256, one \<open>char\<close> each.
\<close>

datatype pyval =
    PyNone
  | PyNaN
  | PdNaT
  | PdNA
  | PyStr string
  | PyInt int
  | PyBool bool
  | PyObj string

text \<open>\<open>pd.isna\<close> on a scalar: true for \<open>None\<close>, float NaN, \<open>NaT\<close> and \<open>pd.NA\<close>.\<close>

fun pd_isna :: "pyval \<Rightarrow> bool" where
  "pd_isna PyNone = True"
| "pd_isna PyNaN = True"
| "pd_isna PdNaT = True"
| "pd_isna PdNA = True"
| "pd_isna _ = False"

text \<open>Decimal digits of a natural number, as \<open>str\<close> prints an \<open>int\<close>.\<close>

definition digit_char :: "nat \<Rightarrow> char" where
  "digit_char d = char_of (48 + d)"

fun str_of_nat :: "nat \<Rightarrow> string" where
  "str_of_nat n =
     (if n < 10 then [digit_char n] else str_of_nat (n div 10) @ [digit_char (n mod 10)])"

declare str_of_nat.simps [simp del]

definition str_of_int :: "int \<Rightarrow> string" where
  "str_of_int i = (if i < 0 then CHR ''-'' # str_of_nat (nat (- i)) else str_of_nat (nat i))"

fun py_str :: "pyval \<Rightarrow> string" where
  "py_str PyNone = ''None''"
| "py_str PyNaN = ''nan''"
| "py_str PdNaT = ''NaT''"
| "py_str PdNA = ''<NA>''"
| "py_str (PyStr s) = s"
| "py_str (PyInt i) = str_of_int i"
| "py_str (PyBool b) = (if b then ''True'' else ''False'')"
| "py_str (PyObj s) = s"

text \<open>
  \<open>str.strip()\<close> without arguments removes the characters for which \<open>str.isspace\<close>
  holds from both ends. Below 256 these are the code points 9 to 13, 28 to 32, 133 and 160.
\<close>

definition py_isspace :: "char \<Rightarrow> bool" where
  "py_isspace c =
     (let n = (of_char c :: nat)
      in (9 \<le> n \<and> n \<le> 13) \<or> (28 \<le> n \<and> n \<le> 32) \<or> n = 133 \<or> n = 160)"

definition py_strip :: "string \<Rightarrow> string" where
  "py_strip s = rev (dropWhile py_isspace (rev (dropWhile py_isspace s)))"

text \<open>
  \<open>str.lower()\<close>: below 256 the upper-case letters are A to Z and the code points 192 to
  222 except 215; each has its lower-case form 32 places later.
\<close>

definition py_lower_char :: "char \<Rightarrow> char" where
  "py_lower_char c =
     (let n = (of_char c :: nat)
      in if (65 \<le> n \<and> n \<le> 90) \<or> (192 \<le> n \<and> n \<le> 222 \<and> n \<noteq> 215)
         then char_of (n + 32) else c)"

definition py_lower :: "string \<Rightarrow> string" where
  "py_lower s = map py_lower_char s"

text \<open>
  \<open>re.sub(r'\.0$', '', s)\<close>: the pattern matches a dot and a zero that stand at the end
  of the string or just before a newline that is the last character. There is at most one
  such place, and the match is replaced by nothing.
\<close>

definition newline :: char where
  "newline = char_of (10::nat)"

definition re_sub_dot0 :: "string \<Rightarrow> string" where
  "re_sub_dot0 s =
     (if suffix ''.0'' s then take (length s - 2) s
      else if suffix (''.0'' @ [newline]) s then take (length s - 3) s @ [newline]
      else s)"

section \<open>The cleaning helpers\<close>

text \<open>
  \<open>clean_value\<close> of main.py, mainWithRadar.py, tallyDealers.py and verifiedDealers.py (the
  four copies differ only in the order of the two tests of the second condition).
\<close>

definition clean_value :: "pyval \<Rightarrow> string option" where
  "clean_value v =
     (if pd_isna v then None
      else let value_str = py_strip (py_str v)
           in if value_str = [] \<or> py_lower value_str = ''nan'' then None
              else Some (re_sub_dot0 value_str))"

text \<open>\<open>clean_boolean\<close> of verifiedDealers.py.\<close>

definition clean_boolean :: "pyval \<Rightarrow> bool option" where
  "clean_boolean v =
     (if pd_isna v then None
      else let val = py_lower (py_strip (py_str v))
           in if val \<in> set [''true'', ''yes'', ''1''] then Some True
              else if val \<in> set [''false'', ''no'', ''0''] then Some False
              else None)"

section \<open>Assembling the records\<close>

text \<open>
  After the columns are cleaned, each script walks the rows of the DataFrame and builds one
  tuple per row. A row is read by column name (\<open>row['name']\<close>); every name the loop reads
  was assigned to the frame before, so the lookup is total. A tuple element is a cell value
  or, for \<open>brand_selling\<close>, a list of strings.
\<close>

type_synonym row = "string \<Rightarrow> pyval"

datatype pyfield = Cell pyval | StrList "string list"

subsection \<open>main.py (and, line for line, mainWithRadar.py)\<close>

definition TARGET_COLUMNS_main :: "string list" where
  "TARGET_COLUMNS_main =
     [''id'', ''user_id'', ''type'', ''parent_dealer_id'', ''name'', ''region'', ''area'',
      ''phone_no'', ''address'', ''total_potential'', ''best_potential'', ''brand_selling'',
      ''feedbacks'', ''remarks'', ''pinCode'', ''dateOfBirth'', ''anniversaryDate'',
      ''latitude'', ''longitude'', ''verification_status'', ''business_type'', ''nameOfFirm'',
      ''underSalesPromoterName'', ''gstin_no'', ''pan_no'']"

definition EXPECTED_COLUMNS_main :: nat where
  "EXPECTED_COLUMNS_main = length TARGET_COLUMNS_main"

text \<open>The \<open>brand_selling\<close> cell becomes \<open>None\<close> or a one-element list.\<close>

definition brand_list_or_none :: "pyval \<Rightarrow> pyfield" where
  "brand_list_or_none brand_selling_value =
     (if pd_isna brand_selling_value \<or> brand_selling_value = PyNone
         \<or> py_lower (py_strip (py_str brand_selling_value)) = ''nan''
      then Cell PyNone
      else StrList [py_strip (py_str brand_selling_value)])"

text \<open>The tuple of one row; \<open>new_uuid\<close> is the text of the fresh \<open>uuid.uuid4()\<close>.\<close>

definition data_tuple_main :: "string \<Rightarrow> row \<Rightarrow> pyfield list" where
  "data_tuple_main new_uuid row =
     [Cell (PyStr new_uuid),
      Cell (row ''user_id''),
      Cell (row ''type''),
      Cell (row ''parent_dealer_id''),
      Cell (row ''name''),
      Cell (row ''region''),
      Cell (row ''area''),
      Cell (row ''phone_no''),
      Cell (row ''address''),
      Cell (row ''total_potential''),
      Cell (row ''best_potential''),
      brand_list_or_none (row ''brand_selling''),
      Cell (row ''feedbacks''),
      Cell (row ''remarks''),
      Cell (row ''pinCode''),
      Cell (row ''dateOfBirth''),
      Cell (row ''anniversaryDate''),
      Cell (row ''latitude''),
      Cell (row ''longitude''),
      Cell (row ''verificationStatus''),
      Cell (row ''business_type''),
      Cell (row ''nameOfFirm''),
      Cell (row ''underSalesPromoterName''),
      Cell (row ''gstin_no''),
      Cell (row ''pan_no'')]"

text \<open>
  The loop over \<open>df.iterrows()\<close>. \<open>uuid4 i\<close> is the identifier drawn in iteration \<open>i\<close>.
  A tuple of the wrong length is skipped (\<open>continue\<close>), any other is appended.
\<close>

fun records_to_insert_main :: "(nat \<Rightarrow> string) \<Rightarrow> nat \<Rightarrow> row list \<Rightarrow> pyfield list list" where
  "records_to_insert_main uuid4 i [] = []"
| "records_to_insert_main uuid4 i (row # rows) =
     (let data_tuple = data_tuple_main (uuid4 i) row
      in if length data_tuple \<noteq> EXPECTED_COLUMNS_main
         then records_to_insert_main uuid4 (Suc i) rows
         else data_tuple # records_to_insert_main uuid4 (Suc i) rows)"

text \<open>
  Where each target column takes its value from: the identifier is generated, the brand
  list is computed, \<open>verification_status\<close> is fed by the frame column
  \<open>verificationStatus\<close>, and every other column by the frame column of the same name.
\<close>

definition column_value_main :: "string \<Rightarrow> row \<Rightarrow> string \<Rightarrow> pyfield" where
  "column_value_main new_uuid row col =
     (if col = ''id'' then Cell (PyStr new_uuid)
      else if col = ''brand_selling'' then brand_list_or_none (row ''brand_selling'')
      else if col = ''verification_status'' then Cell (row ''verificationStatus'')
      else Cell (row col))"

subsection \<open>verifiedDealers.py\<close>

definition TARGET_COLUMNS_verified :: "string list" where
  "TARGET_COLUMNS_verified =
     [''dealer_code'', ''dealer_category'', ''is_subdealer'', ''dealer_party_name'', ''zone'',
      ''area'', ''contact_no1'', ''contact_no2'', ''email'', ''address'', ''pin_code'',
      ''related_sp_name'', ''owner_proprietor_name'', ''nature_of_firm'', ''gst_no'',
      ''pan_no'']"

definition EXPECTED_COLUMNS_verified :: nat where
  "EXPECTED_COLUMNS_verified = length TARGET_COLUMNS_verified"

definition data_tuple_verified :: "row \<Rightarrow> pyval list" where
  "data_tuple_verified row =
     [row ''dealer_code'',
      row ''dealer_category'',
      row ''is_subdealer'',
      row ''dealer_party_name'',
      row ''zone'',
      row ''area'',
      row ''contact_no1'',
      row ''contact_no2'',
      row ''email'',
      row ''address'',
      row ''pin_code'',
      row ''related_sp_name'',
      row ''owner_proprietor_name'',
      row ''nature_of_firm'',
      row ''gst_no'',
      row ''pan_no'']"

fun records_to_insert_verified :: "row list \<Rightarrow> pyval list list" where
  "records_to_insert_verified [] = []"
| "records_to_insert_verified (row # rows) =
     (let data_tuple = data_tuple_verified row
      in if length data_tuple = EXPECTED_COLUMNS_verified
         then data_tuple # records_to_insert_verified rows
         else records_to_insert_verified rows)"

section \<open>The database driver\<close>

text \<open>
  The scripts talk to PostgreSQL through psycopg2. The driver is not part of the
  repository; it is modelled by what its calls do to a table. A call may raise
  \<open>psycopg2.Error\<close> or some other exception.
\<close>

datatype exn = DbError | OtherError

text \<open>Every call to the outside world is recorded, in order.\<close>

datatype ('r, 'q) call =
    Connect
  | SetAutocommit bool
  | Cursor
  | ExecuteBatch "'r list"
  | Commit
  | Rollback
  | Close
  | HttpPut 'q

text \<open>
  The world: the rows the table holds for good, the rows written by the open transaction,
  whether the connection is open and in which mode, and the calls made so far.
\<close>

record ('r, 'q) world =
  committed :: "'r list"
  pending :: "'r list"
  is_open :: bool
  autocommit :: bool
  calls :: "('r, 'q) call list"

datatype http_result = Response nat string | RequestException

text \<open>
  How the outside world answers in one run: whether each driver call succeeds, the mode a
  new connection starts in, how many rows a failing batch had written before it failed, and
  the answer to the \<open>n\<close>-th HTTP request.
\<close>

record 'q outside =
  connect_res :: "exn option"
  initial_autocommit :: bool
  set_autocommit_res :: "exn option"
  cursor_res :: "exn option"
  execute_res :: "exn option"
  executed_rows :: nat
  commit_res :: "exn option"
  rollback_res :: "exn option"
  http_answer :: "nat \<Rightarrow> 'q \<Rightarrow> http_result"

type_synonym ('r, 'q) step = "('r, 'q) world \<Rightarrow> exn option \<times> ('r, 'q) world"

definition record_call :: "('r, 'q) call \<Rightarrow> ('r, 'q) world \<Rightarrow> ('r, 'q) world" where
  "record_call c w = w\<lparr>calls := calls w @ [c]\<rparr>"

definition connect :: "'q outside \<Rightarrow> ('r, 'q) step" where
  "connect out w =
     (let w1 = record_call Connect w
      in case connect_res out of
           Some e \<Rightarrow> (Some e, w1)
         | None \<Rightarrow> (None, w1\<lparr>is_open := True, autocommit := initial_autocommit out, pending := []\<rparr>))"

definition set_autocommit :: "'q outside \<Rightarrow> bool \<Rightarrow> ('r, 'q) step" where
  "set_autocommit out b w =
     (let w1 = record_call (SetAutocommit b) w
      in case set_autocommit_res out of
           Some e \<Rightarrow> (Some e, w1)
         | None \<Rightarrow> (None, w1\<lparr>autocommit := b\<rparr>))"

definition cursor :: "'q outside \<Rightarrow> ('r, 'q) step" where
  "cursor out w =
     (let w1 = record_call Cursor w
      in case cursor_res out of Some e \<Rightarrow> (Some e, w1) | None \<Rightarrow> (None, w1))"

text \<open>
  Rows written in autocommit mode are in the table at once; otherwise they belong to the
  open transaction.
\<close>

definition write_rows :: "'r list \<Rightarrow> ('r, 'q) world \<Rightarrow> ('r, 'q) world" where
  "write_rows rows w =
     (if autocommit w then w\<lparr>committed := committed w @ rows\<rparr>
      else w\<lparr>pending := pending w @ rows\<rparr>)"

definition execute_batch :: "'q outside \<Rightarrow> 'r list \<Rightarrow> ('r, 'q) step" where
  "execute_batch out rows w =
     (let w1 = record_call (ExecuteBatch rows) w
      in case execute_res out of
           Some e \<Rightarrow> (Some e, write_rows (take (executed_rows out) rows) w1)
         | None \<Rightarrow> (None, write_rows rows w1))"

definition commit :: "'q outside \<Rightarrow> ('r, 'q) step" where
  "commit out w =
     (let w1 = record_call Commit w
      in case commit_res out of
           Some e \<Rightarrow> (Some e, w1)
         | None \<Rightarrow> (None, w1\<lparr>committed := committed w1 @ pending w1, pending := []\<rparr>))"

definition rollback :: "'q outside \<Rightarrow> ('r, 'q) step" where
  "rollback out w =
     (let w1 = record_call Rollback w
      in case rollback_res out of
           Some e \<Rightarrow> (Some e, w1)
         | None \<Rightarrow> (None, w1\<lparr>pending := []\<rparr>))"

text \<open>Closing a connection discards what its transaction had not committed.\<close>

definition close :: "('r, 'q) world \<Rightarrow> ('r, 'q) world" where
  "close w = (record_call Close w)\<lparr>is_open := False, pending := []\<rparr>"

text \<open>Statements in sequence: the first exception ends the sequence.\<close>

fun run_steps :: "('r, 'q) step list \<Rightarrow> ('r, 'q) step" where
  "run_steps [] w = (None, w)"
| "run_steps (s # ss) w =
     (case s w of (Some e, w1) \<Rightarrow> (Some e, w1) | (None, w1) \<Rightarrow> run_steps ss w1)"

section \<open>The batch insert\<close>

text \<open>
  The \<open>try\<close> block of \<open>insert_data_to_neon\<close>, the same in main.py, tallyDealers.py and
  verifiedDealers.py. The result tells whether \<open>conn\<close> was assigned, that is, whether
  \<open>psycopg2.connect\<close> returned, and which exception left the block, if any. The messages
  printed between the calls touch neither the connection nor the table and are left out.
\<close>

definition insert_try_block ::
  "'q outside \<Rightarrow> 'r list \<Rightarrow> ('r, 'q) world \<Rightarrow> bool \<times> exn option \<times> ('r, 'q) world" where
  "insert_try_block out data_to_insert w =
     (case connect out w of
        (Some e, w1) \<Rightarrow> (False, Some e, w1)
      | (None, w1) \<Rightarrow>
          (let (r, w2) = run_steps [set_autocommit out False, cursor out,
                                    execute_batch out data_to_insert, commit out] w1
           in (True, r, w2)))"

text \<open>
  main.py: \<open>psycopg2.Error\<close> is answered by a rollback, any other exception by messages
  only; \<open>finally\<close> closes the connection. The result is the exception that reaches the
  caller, if any.
\<close>

definition insert_data_to_neon_main :: "'q outside \<Rightarrow> 'r list \<Rightarrow> ('r, 'q) step" where
  "insert_data_to_neon_main out data_to_insert w =
     (let (conn, r, w1) = insert_try_block out data_to_insert w;
          (r2, w2) = (case r of
                        None \<Rightarrow> (None, w1)
                      | Some DbError \<Rightarrow> (if conn then rollback out w1 else (None, w1))
                      | Some OtherError \<Rightarrow> (None, w1))
      in (r2, if conn then close w2 else w2))"

text \<open>
  tallyDealers.py and verifiedDealers.py: only \<open>psycopg2.Error\<close> is caught; any other
  exception passes through \<open>finally\<close> to the caller.
\<close>

definition insert_data_to_neon_tally :: "'q outside \<Rightarrow> 'r list \<Rightarrow> ('r, 'q) step" where
  "insert_data_to_neon_tally out data_to_insert w =
     (let (conn, r, w1) = insert_try_block out data_to_insert w;
          (r2, w2) = (case r of
                        None \<Rightarrow> (None, w1)
                      | Some DbError \<Rightarrow> (if conn then rollback out w1 else (None, w1))
                      | Some OtherError \<Rightarrow> (Some OtherError, w1))
      in (r2, if conn then close w2 else w2))"

section \<open>mainWithRadar.py: geofences\<close>

text \<open>
  \<open>upsert_radar_geofence\<close> reads nine positions of the tuple built by the main loop.
  The record below holds them with the types the loop gives them: position 0 is the text of
  a fresh UUID, position 1 a column cast with \<open>astype(int)\<close>, positions 4, 5, 6 and 19
  results of \<open>clean_value\<close>, position 7 a result of \<open>clean_value\<close> with \<open>None\<close>
  replaced by the empty string, and positions 17 and 18 numbers left by \<open>pd.to_numeric\<close>,
  or \<open>None\<close>. The type \<open>'n\<close> stands for those numbers.
\<close>

record 'n dealer =
  dealer_id :: string
  user_id :: int
  name :: "string option"
  region :: "string option"
  area :: "string option"
  phone_no :: string
  latitude :: "'n option"
  longitude :: "'n option"
  verification_status :: "string option"

text \<open>
  What \<open>json.dumps\<close> is given. \<open>JFloat x\<close> is the number \<open>float(x)\<close>. The serialised
  text itself is not modelled: a form field is plain text or the serialisation of a JSON
  value.
\<close>

datatype 'n json =
    JNull
  | JString string
  | JFloat 'n
  | JArray "'n json list"
  | JObject "(string \<times> 'n json) list"

datatype 'n form_value = Text string | JsonDumps "'n json"

record 'n request =
  url :: string
  headers :: "(string \<times> string) list"
  data :: "(string \<times> 'n form_value) list"

text \<open>\<open>str(x)\<close> for a value that is a string or \<open>None\<close>.\<close>

definition str_of_opt :: "string option \<Rightarrow> string" where
  "str_of_opt x = (case x of None \<Rightarrow> ''None'' | Some s \<Rightarrow> s)"

definition json_of_opt :: "string option \<Rightarrow> 'n json" where
  "json_of_opt x = (case x of None \<Rightarrow> JNull | Some s \<Rightarrow> JString s)"

text \<open>
  The metadata dictionary, in insertion order, after the comprehension that keeps the
  entries whose value is not \<open>None\<close>. An integer is true when it is not zero.
\<close>

definition radar_metadata :: "'n dealer \<Rightarrow> (string \<times> string option) list" where
  "radar_metadata d =
     filter (\<lambda>(k, v). v \<noteq> None)
       [(''dealerId'', Some (dealer_id d)),
        (''userId'', if user_id d \<noteq> 0 then Some (str_of_int (user_id d)) else None),
        (''region'', region d),
        (''area'', area d),
        (''phoneNo'', Some (phone_no d)),
        (''verificationStatus'', verification_status d)]"

definition radar_payload :: "'n dealer \<Rightarrow> 'n \<Rightarrow> 'n \<Rightarrow> (string \<times> 'n form_value) list" where
  "radar_payload d lat lng =
     [(''description'', Text (take 120 (str_of_opt (name d)))),
      (''type'', Text ''circle''),
      (''coordinates'', JsonDumps (JArray [JFloat lng, JFloat lat])),
      (''radius'', Text ''50''),
      (''tag'', Text ''dealer''),
      (''externalId'', Text (''dealer:'' @ dealer_id d)),
      (''metadata'', JsonDumps (JObject (map (\<lambda>(k, v). (k, json_of_opt v)) (radar_metadata d))))]"

definition radar_request :: "string \<Rightarrow> 'n dealer \<Rightarrow> 'n \<Rightarrow> 'n \<Rightarrow> 'n request" where
  "radar_request secret_key d lat lng =
     \<lparr>url = ''https://api.radar.io/v1/geofences/dealer/dealer:'' @ dealer_id d,
      headers = [(''Authorization'', secret_key),
                 (''Content-Type'', ''application/x-www-form-urlencoded'')],
      data = radar_payload d lat lng\<rparr>"

text \<open>The number of HTTP requests made so far.\<close>

fun is_put :: "('r, 'q) call \<Rightarrow> bool" where
  "is_put (HttpPut _) = True"
| "is_put _ = False"

definition puts_made :: "('r, 'q) world \<Rightarrow> nat" where
  "puts_made w = length (filter is_put (calls w))"

text \<open>
  \<open>upsert_radar_geofence\<close>: without coordinates nothing is sent. Otherwise one PUT is
  made; the function returns \<open>True\<close> for the status codes 200 and 201 and \<open>False\<close> for any
  other status and for any exception of the request.
\<close>

definition upsert_radar_geofence ::
  "'n request outside \<Rightarrow> 'n dealer \<Rightarrow> string \<Rightarrow> ('r, 'n request) world
     \<Rightarrow> bool \<times> ('r, 'n request) world" where
  "upsert_radar_geofence out dealer_data secret_key w =
     (case (latitude dealer_data, longitude dealer_data) of
        (Some lat, Some lng) \<Rightarrow>
          (let req = radar_request secret_key dealer_data lat lng;
               w1 = record_call (HttpPut req) w
           in case http_answer out (puts_made w) req of
                Response status_code text \<Rightarrow> (status_code \<in> set [200, 201], w1)
              | RequestException \<Rightarrow> (False, w1))
      | _ \<Rightarrow> (False, w))"

text \<open>The loop over the inserted records, counting the successes.\<close>

fun radar_import ::
  "'n request outside \<Rightarrow> string \<Rightarrow> 'n dealer list \<Rightarrow> nat \<Rightarrow> ('r, 'n request) world
     \<Rightarrow> nat \<times> ('r, 'n request) world" where
  "radar_import out radar_key [] success_count w = (success_count, w)"
| "radar_import out radar_key (record # records) success_count w =
     (case upsert_radar_geofence out record radar_key w of
        (True, w1) \<Rightarrow> radar_import out radar_key records (success_count + 1) w1
      | (False, w1) \<Rightarrow> radar_import out radar_key records success_count w1)"

text \<open>
  \<open>insert_data_to_neon\<close> of mainWithRadar.py: the geofence import is the last statement
  of the \<open>try\<close> block, after the commit, under \<open>if radar_key\<close>. The key comes from
  \<open>os.getenv\<close>: it is \<open>None\<close> or a string, and true when it is a string that is not
  empty. The handlers and \<open>finally\<close> are those of main.py.
\<close>

definition insert_data_to_neon_radar ::
  "'n request outside \<Rightarrow> 'n dealer list \<Rightarrow> string option
     \<Rightarrow> ('n dealer, 'n request) step" where
  "insert_data_to_neon_radar out data_to_insert radar_key w =
     (let (conn, r, w1) = insert_try_block out data_to_insert w;
          w1 = (case r of
                  None \<Rightarrow>
                    (case radar_key of
                       None \<Rightarrow> w1
                     | Some k \<Rightarrow>
                         if k \<noteq> [] then snd (radar_import out k data_to_insert 0 w1) else w1)
                | Some e \<Rightarrow> w1);
          (r2, w2) = (case r of
                        None \<Rightarrow> (None, w1)
                      | Some DbError \<Rightarrow> (if conn then rollback out w1 else (None, w1))
                      | Some OtherError \<Rightarrow> (None, w1))
      in (r2, if conn then close w2 else w2))"

section \<open>Describing a run\<close>

text \<open>
  The results of the five driver calls of the \<open>try\<close> block in the order of the calls,
  the first exception among them, and the calls themselves.
\<close>

definition try_results :: "'q outside \<Rightarrow> exn option list" where
  "try_results out =
     [connect_res out, set_autocommit_res out, cursor_res out, execute_res out, commit_res out]"

definition first_error :: "'q outside \<Rightarrow> exn option" where
  "first_error out =
     (case dropWhile (\<lambda>r. r = None) (try_results out) of [] \<Rightarrow> None | r # _ \<Rightarrow> r)"

definition try_calls :: "'r list \<Rightarrow> ('r, 'q) call list" where
  "try_calls data_to_insert =
     [Connect, SetAutocommit False, Cursor, ExecuteBatch data_to_insert, Commit]"

text \<open>The calls of the \<open>try\<close> block that are reached: all up to the first that raises.\<close>

definition calls_reached :: "'q outside \<Rightarrow> 'r list \<Rightarrow> ('r, 'q) call list" where
  "calls_reached out data_to_insert =
     take (Suc (length (takeWhile (\<lambda>r. r = None) (try_results out)))) (try_calls data_to_insert)"

definition connected :: "'q outside \<Rightarrow> bool" where
  "connected out = (connect_res out = None)"

text \<open>The calls made by the handlers and by \<open>finally\<close>.\<close>

definition cleanup_calls :: "'q outside \<Rightarrow> ('r, 'q) call list" where
  "cleanup_calls out =
     (if connected out \<and> first_error out = Some DbError then [Rollback] else [])
     @ (if connected out then [Close] else [])"

text \<open>The records that have both coordinates, each with the request made for it.\<close>

fun geofence_requests :: "string \<Rightarrow> 'n dealer list \<Rightarrow> 'n request list" where
  "geofence_requests secret_key [] = []"
| "geofence_requests secret_key (d # ds) =
     (case (latitude d, longitude d) of
        (Some lat, Some lng) \<Rightarrow> radar_request secret_key d lat lng # geofence_requests secret_key ds
      | _ \<Rightarrow> geofence_requests secret_key ds)"

definition key_present :: "string option \<Rightarrow> bool" where
  "key_present radar_key = (case radar_key of None \<Rightarrow> False | Some k \<Rightarrow> k \<noteq> [])"

definition geofence_calls :: "string option \<Rightarrow> 'n dealer list \<Rightarrow> ('r, 'n request) call list" where
  "geofence_calls radar_key data_to_insert =
     (case radar_key of
        None \<Rightarrow> []
      | Some k \<Rightarrow> if k \<noteq> [] then map HttpPut (geofence_requests k data_to_insert) else [])"

fun is_batch :: "('r, 'q) call \<Rightarrow> bool" where
  "is_batch (ExecuteBatch _) = True"
| "is_batch _ = False"

section \<open>Numeric columns\<close>

text \<open>
  main.py and mainWithRadar.py prepare the latitude and longitude columns with
  \<open>pd.to_numeric(df[col], errors='coerce').apply(lambda x: None if pd.isna(x) else x)\<close>.
  The cells of such a column are numbers, the float NaN, or the object \<open>None\<close>; \<open>'n\<close>
  stands for the numbers, and \<open>parse\<close> for the reading of one cell as a number, which
  fails on a missing or unparseable cell.
\<close>

datatype 'n numeric_cell = Number 'n | FloatNaN | ObjNone

text \<open>\<open>pd.to_numeric\<close> with \<open>errors='coerce'\<close>: what cannot be read becomes NaN.\<close>

definition to_numeric_coerce :: "(pyval \<Rightarrow> 'n option) \<Rightarrow> pyval list \<Rightarrow> 'n numeric_cell list" where
  "to_numeric_coerce parse col =
     map (\<lambda>v. case parse v of Some x \<Rightarrow> Number x | None \<Rightarrow> FloatNaN) col"

fun is_number :: "'n numeric_cell \<Rightarrow> bool" where
  "is_number (Number _) = True"
| "is_number _ = False"

text \<open>
  \<open>Series.apply\<close> calls the function on every element and builds the new Series from
  the list of results, looking for a better type than \<open>object\<close> (its \<open>convert_dtype\<close>
  default). Results that are numbers and \<open>None\<close>, with at least one number, make a float
  column, in which \<open>None\<close> is stored as NaN; results that are all \<open>None\<close> stay objects.
\<close>

definition series_apply ::
  "('n numeric_cell \<Rightarrow> 'n numeric_cell) \<Rightarrow> 'n numeric_cell list \<Rightarrow> 'n numeric_cell list" where
  "series_apply f col =
     (let results = map f col
      in if list_ex is_number results
         then map (\<lambda>r. if r = ObjNone then FloatNaN else r) results
         else results)"

text \<open>The lambda of the scripts: \<open>pd.isna\<close> holds for NaN and for \<open>None\<close>.\<close>

definition none_if_na :: "'n numeric_cell \<Rightarrow> 'n numeric_cell" where
  "none_if_na x = (if x = FloatNaN \<or> x = ObjNone then ObjNone else x)"

definition numeric_float_col :: "(pyval \<Rightarrow> 'n option) \<Rightarrow> pyval list \<Rightarrow> 'n numeric_cell list" where
  "numeric_float_col parse col = series_apply none_if_na (to_numeric_coerce parse col)"

text \<open>A reading of cells for the sample below: integers are read, nothing else is.\<close>

fun parse_int_cell :: "pyval \<Rightarrow> int option" where
  "parse_int_cell (PyInt i) = Some i"
| "parse_int_cell _ = None"

section \<open>Sample runs\<close>

text \<open>
  Concrete inputs on which the theorems below are exercised: an empty table with no
  connection, a driver and network on which everything succeeds (the network answers the
  first request with 200 and fails on every later one), the same with a batch that fails
  with a database error after one row, and two dealers, the second without a latitude.
\<close>

definition fresh_world :: "('r, 'q) world" where
  "fresh_world = \<lparr>committed = [], pending = [], is_open = False, autocommit = False, calls = []\<rparr>"

definition healthy :: "'q outside" where
  "healthy =
     \<lparr>connect_res = None, initial_autocommit = True, set_autocommit_res = None,
      cursor_res = None, execute_res = None, executed_rows = 0, commit_res = None,
      rollback_res = None,
      http_answer = (\<lambda>n q. if n = 0 then Response 200 ''ok'' else RequestException)\<rparr>"

definition failing_batch :: "'q outside" where
  "failing_batch = healthy\<lparr>execute_res := Some DbError, executed_rows := 1\<rparr>"

definition dealer_a :: "nat dealer" where
  "dealer_a =
     \<lparr>dealer_id = ''a1'', user_id = 0, name = Some ''Asha Traders'', region = Some ''East'',
      area = None, phone_no = '''', latitude = Some 26, longitude = Some 91,
      verification_status = None\<rparr>"

definition dealer_b :: "nat dealer" where
  "dealer_b = dealer_a\<lparr>dealer_id := ''b2'', user_id := 12, latitude := None\<rparr>"

text \<open>Two rows of a cleaned frame, one that holds text in every column and one that is blank,
  and identifiers \<open>u\<close>, \<open>uu\<close>, \<open>uuu\<close> and so on.\<close>

definition text_row :: row where
  "text_row col = PyStr col"

definition blank_row :: row where
  "blank_row col = PyNone"

definition sample_uuid4 :: "nat \<Rightarrow> string" where
  "sample_uuid4 i = replicate (Suc i) CHR ''u''"

section \<open>Properties of the cleaning helpers\<close>

lemma py_isspace_newline: "py_isspace newline"
  by (simp add: py_isspace_def newline_def)

lemma py_strip_last: "py_strip s \<noteq> [] \<Longrightarrow> \<not> py_isspace (last (py_strip s))"
  unfolding py_strip_def
  by (metis hd_dropWhile hd_rev rev_is_Nil_conv rev_rev_ident)

lemma py_strip_hd: "py_strip s \<noteq> [] \<Longrightarrow> \<not> py_isspace (hd (py_strip s))"
  unfolding py_strip_def
  by (metis Nil_is_rev_conv dropWhile.simps(1) dropWhile_eq_Nil_conv
    dropWhile_last hd_dropWhile last_rev rev_rev_ident)

lemma dropWhile_keep: "xs = [] \<or> \<not> P (hd xs) \<Longrightarrow> dropWhile P xs = xs"
  by (cases xs) auto

lemma py_strip_fixed:
  assumes "s = [] \<or> (\<not> py_isspace (hd s) \<and> \<not> py_isspace (last s))"
  shows "py_strip s = s"
proof (cases "s = []")
  case True
  then show ?thesis by (simp add: py_strip_def)
next
  case False
  with assms have h: "\<not> py_isspace (hd s)" and l: "\<not> py_isspace (last s)" by auto
  have "dropWhile py_isspace s = s" using h by (simp add: dropWhile_keep)
  moreover have "dropWhile py_isspace (rev s) = rev s"
    using l False by (simp add: dropWhile_keep hd_rev)
  ultimately show ?thesis by (simp add: py_strip_def)
qed

lemma py_strip_idem: "py_strip (py_strip s) = py_strip s"
  by (rule py_strip_fixed) (use py_strip_hd py_strip_last in blast)

lemma re_sub_dot0_stripped:
  "re_sub_dot0 (py_strip s) =
     (if suffix ''.0'' (py_strip s) then take (length (py_strip s) - 2) (py_strip s)
      else py_strip s)"
proof -
  have "\<not> suffix (''.0'' @ [newline]) (py_strip s)"
  proof
    assume a: "suffix (''.0'' @ [newline]) (py_strip s)"
    then obtain p where p: "py_strip s = p @ ''.0'' @ [newline]" by (auto simp: suffix_def)
    then have "py_strip s \<noteq> []" and "last (py_strip s) = newline" by simp_all
    with py_strip_last [of s] py_isspace_newline show False by simp
  qed
  then show ?thesis by (simp add: re_sub_dot0_def)
qed

lemma of_char_n: "(of_char c :: nat) = 110 \<longleftrightarrow> c = CHR ''n''"
proof -
  have "(of_char (CHR ''n'') :: nat) = 110" by simp
  then show ?thesis by (metis of_char_eq_iff)
qed

lemma of_char_N: "(of_char c :: nat) = 78 \<longleftrightarrow> c = CHR ''N''"
proof -
  have "(of_char (CHR ''N'') :: nat) = 78" by simp
  then show ?thesis by (metis of_char_eq_iff)
qed

lemma py_lower_char_n: "py_lower_char c = CHR ''n'' \<longleftrightarrow> c = CHR ''n'' \<or> c = CHR ''N''"
proof -
  have lt: "(of_char c :: nat) < 256" by simp
  have "py_lower_char c = CHR ''n'' \<longleftrightarrow> (of_char c :: nat) = 110 \<or> (of_char c :: nat) = 78"
    unfolding py_lower_char_def Let_def
    using lt
    apply (simp add: char_of_eq_iff take_bit_eq_mod of_char_n split: if_splits)
    apply (simp add: of_char_n [symmetric])
    apply arith
    done
  then show ?thesis by (simp add: of_char_n of_char_N)
qed

text \<open>
  C2. \<open>clean_value\<close> returns \<open>None\<close> exactly when the value is a pandas missing value, or
  its text with the surrounding whitespace stripped is empty or equals \<open>nan\<close> without
  regard to case (the eight spellings of \<open>py_lower_nan_iff\<close> below). For every other value
  it returns the stripped text, with one trailing \<open>.0\<close> removed when the stripped text ends
  with it and unchanged otherwise.
\<close>

theorem clean_value_spec:
  "(clean_value v = None \<longleftrightarrow>
      pd_isna v \<or> py_strip (py_str v) = [] \<or> py_lower (py_strip (py_str v)) = ''nan'')
   \<and> (clean_value v \<noteq> None \<longrightarrow>
        clean_value v =
          Some (if suffix ''.0'' (py_strip (py_str v))
                then take (length (py_strip (py_str v)) - 2) (py_strip (py_str v))
                else py_strip (py_str v)))"
  by (simp add: clean_value_def Let_def re_sub_dot0_stripped)

theorem clean_value_spec_witness:
  "clean_value (PyStr '' 12.0  '') \<noteq> None \<and> clean_value (PyStr '' 12.0  '') = Some ''12''
   \<and> clean_value (PyStr '' NaN '') = None"
  using clean_value_spec [of "PyStr '' 12.0  ''"] clean_value_spec [of "PyStr '' NaN ''"]
  by (simp add: py_strip_def py_isspace_def py_lower_def py_lower_char_def suffix_def char_of_eq_iff)

lemma of_char_a: "(of_char c :: nat) = 97 \<longleftrightarrow> c = CHR ''a''"
proof -
  have "(of_char (CHR ''a'') :: nat) = 97" by simp
  then show ?thesis by (metis of_char_eq_iff)
qed

lemma of_char_A: "(of_char c :: nat) = 65 \<longleftrightarrow> c = CHR ''A''"
proof -
  have "(of_char (CHR ''A'') :: nat) = 65" by simp
  then show ?thesis by (metis of_char_eq_iff)
qed

lemma py_lower_char_a: "py_lower_char c = CHR ''a'' \<longleftrightarrow> c = CHR ''a'' \<or> c = CHR ''A''"
proof -
  have lt: "(of_char c :: nat) < 256" by simp
  have "py_lower_char c = CHR ''a'' \<longleftrightarrow> (of_char c :: nat) = 97 \<or> (of_char c :: nat) = 65"
    unfolding py_lower_char_def Let_def
    using lt
    apply (simp add: char_of_eq_iff take_bit_eq_mod of_char_a split: if_splits)
    apply (simp add: of_char_a [symmetric])
    apply arith
    done
  then show ?thesis by (simp add: of_char_a of_char_A)
qed

lemma list3: "length t = 3 \<Longrightarrow> \<exists>a b c. t = [a, b, c]"
  by (cases t; cases "tl t"; cases "tl (tl t)") auto

lemma py_lower_nan_iff:
  "py_lower t = ''nan'' \<longleftrightarrow>
     t \<in> set [''nan'', ''naN'', ''nAn'', ''nAN'', ''Nan'', ''NaN'', ''NAn'', ''NAN'']"
proof
  assume a: "py_lower t = ''nan''"
  then have "length t = 3" by (metis length_map py_lower_def length_Cons list.size(3) numeral_3_eq_3)
  then obtain x y z where t: "t = [x, y, z]" using list3 by blast
  with a have "py_lower_char x = CHR ''n''" "py_lower_char y = CHR ''a''" "py_lower_char z = CHR ''n''"
    by (simp_all add: py_lower_def)
  then have "(x = CHR ''n'' \<or> x = CHR ''N'') \<and> (y = CHR ''a'' \<or> y = CHR ''A'')
      \<and> (z = CHR ''n'' \<or> z = CHR ''N'')"
    by (simp add: py_lower_char_n py_lower_char_a)
  with t show "t \<in> set [''nan'', ''naN'', ''nAn'', ''nAN'', ''Nan'', ''NaN'', ''NAn'', ''NAN'']"
    by (elim conjE disjE) simp_all
next
  assume "t \<in> set [''nan'', ''naN'', ''nAn'', ''nAN'', ''Nan'', ''NaN'', ''NAn'', ''NAN'']"
  then show "py_lower t = ''nan''"
    by (auto simp: py_lower_def py_lower_char_n py_lower_char_a)
qed

lemmas str_eval = py_strip_def py_isspace_def py_lower_def py_lower_char_def char_of_eq_iff
  re_sub_dot0_def suffix_def newline_def

text \<open>
  C8. Every value whose stripped text is \<open>.0\<close> is cleaned to the empty string, not to
  \<open>None\<close>; such values exist, so a result of \<open>clean_value\<close> other than \<open>None\<close> can be
  the empty string.
\<close>

theorem clean_value_dot0:
  "(\<forall>v. py_strip (py_str v) = ''.0'' \<longrightarrow> clean_value v = Some [])
   \<and> (\<exists>v. clean_value v \<noteq> None \<and> clean_value v = Some [])"
proof (intro conjI allI impI)
  fix v assume a: "py_strip (py_str v) = ''.0''"
  have "\<not> pd_isna v"
  proof
    assume "pd_isna v"
    then have "py_strip (py_str v) \<in> {''None'', ''nan'', ''NaT'', ''<NA>''}"
      by (cases v) (simp_all add: str_eval)
    with a show False by simp
  qed
  then show "clean_value v = Some []"
    using a by (simp add: clean_value_def str_eval)
next
  have "clean_value (PyStr ''.0'') = Some []"
    by (simp add: clean_value_def str_eval)
  then show "\<exists>v. clean_value v \<noteq> None \<and> clean_value v = Some []" by auto
qed

theorem clean_value_dot0_witness:
  "py_strip (py_str (PyStr ''  .0 '')) = ''.0'' \<and> clean_value (PyStr ''  .0 '') = Some []"
proof -
  have a: "py_strip (py_str (PyStr ''  .0 '')) = ''.0''" by (simp add: str_eval)
  with clean_value_dot0 show ?thesis by blast
qed

lemma na_lower_strip:
  "pd_isna v \<Longrightarrow> py_lower (py_strip (py_str v)) \<in> {''none'', ''nan'', ''nat'', ''<na>''}"
  by (cases v) (simp_all add: str_eval)

text \<open>
  C6. \<open>clean_boolean\<close> returns \<open>True\<close> exactly when the stripped, lower-cased text of the
  value is \<open>true\<close>, \<open>yes\<close> or \<open>1\<close>, returns \<open>False\<close> exactly when it is \<open>false\<close>,
  \<open>no\<close> or \<open>0\<close>, and returns \<open>None\<close> for every pandas missing value and for every
  other value.
\<close>

theorem clean_boolean_spec:
  "(clean_boolean v = Some True \<longleftrightarrow>
      py_lower (py_strip (py_str v)) \<in> {''true'', ''yes'', ''1''})
   \<and> (clean_boolean v = Some False \<longleftrightarrow>
      py_lower (py_strip (py_str v)) \<in> {''false'', ''no'', ''0''})
   \<and> (pd_isna v \<longrightarrow> clean_boolean v = None)
   \<and> (py_lower (py_strip (py_str v)) \<notin> {''true'', ''yes'', ''1'', ''false'', ''no'', ''0''}
        \<longrightarrow> clean_boolean v = None)"
proof (cases "pd_isna v")
  case True
  from na_lower_strip [OF True] True show ?thesis
    by (auto simp: clean_boolean_def)
next
  case False
  then show ?thesis
    by (auto simp: clean_boolean_def Let_def)
qed

theorem clean_boolean_spec_witness:
  "pd_isna PyNaN \<and> clean_boolean PyNaN = None
   \<and> py_lower (py_strip (py_str (PyObj ''1.0''))) \<notin> {''true'', ''yes'', ''1'', ''false'', ''no'', ''0''}
   \<and> clean_boolean (PyObj ''1.0'') = None
   \<and> clean_boolean (PyStr '' YES '') = Some True
   \<and> clean_boolean (PyInt 0) = Some False"
proof -
  have a: "py_lower (py_strip (py_str (PyObj ''1.0''))) = ''1.0''" by (simp add: str_eval)
  have b: "py_lower (py_strip (py_str (PyStr '' YES ''))) = ''yes''" by (simp add: str_eval)
  have c: "py_lower (py_strip (py_str (PyInt 0))) = ''0''"
    by (simp add: str_eval str_of_int_def str_of_nat.simps digit_char_def)
  show ?thesis
    using clean_boolean_spec [of PyNaN] clean_boolean_spec [of "PyObj ''1.0''"]
      clean_boolean_spec [of "PyStr '' YES ''"] clean_boolean_spec [of "PyInt 0"]
    unfolding a b c by simp
qed


text \<open>
  C9 as stated fails: cleaning \<open>1.0.0\<close> gives \<open>1.0\<close>, and cleaning that again gives
  \<open>1\<close>.
\<close>

theorem clean_value_not_idempotent:
  "clean_value (PyStr ''1.0.0'') = Some ''1.0'' \<and> clean_value (PyStr ''1.0'') \<noteq> Some ''1.0''"
  by (simp add: clean_value_def str_eval)

lemma length_py_strip_le: "length (py_strip s) \<le> length s"
  unfolding py_strip_def
  by (metis length_dropWhile_le length_rev order_trans)

lemma py_strip_eq_iff:
  "py_strip s = s \<longleftrightarrow> s = [] \<or> (\<not> py_isspace (hd s) \<and> \<not> py_isspace (last s))"
  using py_strip_fixed [of s] py_strip_hd [of s] py_strip_last [of s] by auto

lemma re_sub_dot0_length: "length (re_sub_dot0 s) \<le> length s"
  by (auto simp: re_sub_dot0_def dest: suffix_length_le)

lemma dropWhile_same_length: "length (dropWhile P xs) = length xs \<Longrightarrow> dropWhile P xs = xs"
proof (cases xs)
  case Nil
  then show ?thesis by simp
next
  case (Cons a list)
  assume l: "length (dropWhile P xs) = length xs"
  have "\<not> P a"
  proof
    assume "P a"
    with Cons l have "length (dropWhile P list) = Suc (length list)" by simp
    with length_dropWhile_le [of P list] show False by simp
  qed
  with Cons show ?thesis by simp
qed

lemma py_strip_same_length:
  assumes "length (py_strip s) = length s"
  shows "py_strip s = s"
proof -
  let ?d = "dropWhile py_isspace s"
  have a: "length (py_strip s) \<le> length ?d"
    unfolding py_strip_def by (metis length_dropWhile_le length_rev)
  have b: "length ?d \<le> length s" by (rule length_dropWhile_le)
  from a b assms have "length ?d = length s" by simp
  then have d: "?d = s" by (rule dropWhile_same_length)
  with assms have "length (dropWhile py_isspace (rev s)) = length (rev s)"
    by (simp add: py_strip_def)
  then have "dropWhile py_isspace (rev s) = rev s" by (rule dropWhile_same_length)
  with d show ?thesis by (simp add: py_strip_def)
qed

lemma clean_value_result_hd:
  assumes "clean_value v = Some s" and "s \<noteq> []"
  shows "\<not> py_isspace (hd s)"
proof -
  let ?t = "py_strip (py_str v)"
  from assms(1) have t: "?t \<noteq> []" and s: "s = re_sub_dot0 ?t"
    by (auto simp: clean_value_def Let_def split: if_splits)
  from s have "s = ?t \<or> s = take (length ?t - 2) ?t"
    by (simp add: re_sub_dot0_stripped split: if_splits)
  with assms(2) have "hd s = hd ?t"
    by (auto simp: hd_take)
  with py_strip_hd [OF t] show ?thesis by simp
qed

text \<open>
  C9, amended. When \<open>clean_value\<close> returns a string \<open>s\<close>, cleaning \<open>s\<close> again returns
  \<open>s\<close> exactly when \<open>s\<close> is not empty, does not end with a whitespace character or with
  \<open>.0\<close>, and is not \<open>nan\<close> in any spelling. Only one \<open>.0\<close> is removed per call, so a
  result may still need cleaning.
\<close>

theorem clean_value_idempotent_iff:
  assumes "clean_value v = Some s"
  shows "clean_value (PyStr s) = Some s \<longleftrightarrow>
           s \<noteq> [] \<and> \<not> py_isspace (last s) \<and> py_lower s \<noteq> ''nan'' \<and> \<not> suffix ''.0'' s"
proof (cases "s = []")
  case True
  then show ?thesis by (simp add: clean_value_def py_strip_def)
next
  case False
  note hd = clean_value_result_hd [OF assms False]
  show ?thesis
  proof (cases "py_isspace (last s)")
    case True
    with False have "py_strip s \<noteq> s" by (simp add: py_strip_eq_iff)
    with length_py_strip_le [of s] py_strip_same_length [of s]
    have "length (py_strip s) < length s"
      by (cases "length (py_strip s) = length s") auto
    with re_sub_dot0_length [of "py_strip s"] have "re_sub_dot0 (py_strip s) \<noteq> s" by auto
    with True show ?thesis by (auto simp: clean_value_def Let_def)
  next
    case False
    with hd have st: "py_strip s = s" by (simp add: py_strip_eq_iff)
    have "re_sub_dot0 s = s \<longleftrightarrow> \<not> suffix ''.0'' s"
    proof (cases "suffix ''.0'' s")
      case True
      then have "2 \<le> length s" by (auto dest: suffix_length_le)
      then have "length (take (length s - 2) s) < length s" by simp
      then have "take (length s - 2) s \<noteq> s" by (metis less_irrefl)
      with True show ?thesis using re_sub_dot0_stripped [of s] unfolding st by simp
    next
      case False
      then show ?thesis using re_sub_dot0_stripped [of s] unfolding st by simp
    qed
    with False \<open>s \<noteq> []\<close> st show ?thesis by (auto simp: clean_value_def Let_def)
  qed
qed

theorem clean_value_idempotent_iff_witness:
  "clean_value (PyStr '' 12.0 '') = Some ''12'' \<and> clean_value (PyStr ''12'') = Some ''12''"
proof -
  have a: "clean_value (PyStr '' 12.0 '') = Some ''12''"
    by (simp add: clean_value_def str_eval)
  have b: "''12'' \<noteq> [] \<and> \<not> py_isspace (last ''12'') \<and> py_lower ''12'' \<noteq> ''nan''
      \<and> \<not> suffix ''.0'' ''12''"
    by (simp add: str_eval)
  from clean_value_idempotent_iff [OF a] a b show ?thesis by blast
qed

section \<open>Properties of the batch insert and of the geofence import\<close>

lemmas driver_defs = connect_def set_autocommit_def cursor_def execute_batch_def commit_def
  rollback_def close_def record_call_def write_rows_def

lemmas run_defs = try_results_def first_error_def try_calls_def calls_reached_def connected_def
  cleanup_calls_def

lemma try_block_conn: "fst (insert_try_block out d w) = connected out"
  by (simp add: insert_try_block_def connected_def connect_def Let_def split: option.splits prod.splits)

lemma try_block_error: "fst (snd (insert_try_block out d w)) = first_error out"
  by (simp add: insert_try_block_def driver_defs run_defs Let_def split: option.splits prod.splits)

lemma try_block_calls:
  "calls (snd (snd (insert_try_block out d w))) = calls w @ calls_reached out d"
  by (simp add: insert_try_block_def driver_defs run_defs Let_def split: option.splits prod.splits)

lemma try_block_committed:
  "committed (snd (snd (insert_try_block out d w))) =
     (if first_error out = None then committed w @ d else committed w)"
  by (simp add: insert_try_block_def driver_defs run_defs Let_def split: option.splits prod.splits)

lemma try_block_is_open:
  "is_open (snd (snd (insert_try_block out d w))) = (connected out \<or> is_open w)"
  by (simp add: insert_try_block_def driver_defs run_defs Let_def split: option.splits prod.splits)

lemma try_block_pending:
  "\<not> connected out \<Longrightarrow> pending (snd (snd (insert_try_block out d w))) = pending w"
  by (auto simp add: insert_try_block_def driver_defs run_defs Let_def split: option.splits prod.splits)

lemma rollback_fields:
  "committed (snd (rollback out w)) = committed w"
  "calls (snd (rollback out w)) = calls w @ [Rollback]"
  "is_open (snd (rollback out w)) = is_open w"
  by (simp_all add: rollback_def record_call_def Let_def split: option.splits)

lemma close_fields:
  "committed (close w) = committed w"
  "calls (close w) = calls w @ [Close]"
  "is_open (close w) = False"
  "pending (close w) = []"
  by (simp_all add: close_def record_call_def)

lemma first_error_disconnected: "\<not> connected out \<Longrightarrow> first_error out \<noteq> None"
  by (auto simp: run_defs)

lemma insert_main_run:
  fixes w :: "('r, 'q) world" and out d
  defines "w' \<equiv> snd (insert_data_to_neon_main out d w)"
  shows "calls w' = calls w @ calls_reached out d @ cleanup_calls out"
    and "committed w' = (if first_error out = None then committed w @ d else committed w)"
    and "connected out \<Longrightarrow> \<not> is_open w' \<and> pending w' = []"
    and "\<not> connected out \<Longrightarrow> is_open w' = is_open w \<and> pending w' = pending w"
proof -
  obtain conn r w1 where t: "insert_try_block out d w = (conn, r, w1)"
    by (metis prod_cases3)
  from try_block_conn [of out d w] try_block_error [of out d w] try_block_calls [of out d w]
    try_block_committed [of out d w] try_block_is_open [of out d w] t
  have f: "conn = connected out" "r = first_error out" "calls w1 = calls w @ calls_reached out d"
    "committed w1 = (if first_error out = None then committed w @ d else committed w)"
    "is_open w1 = (connected out \<or> is_open w)"
    by simp_all
  from try_block_pending [of out d w] t have p: "\<not> connected out \<Longrightarrow> pending w1 = pending w"
    by simp
  show "calls w' = calls w @ calls_reached out d @ cleanup_calls out"
    unfolding w'_def insert_data_to_neon_main_def t
    by (simp add: f [symmetric] cleanup_calls_def rollback_fields close_fields case_prod_beta
        split: option.splits exn.splits)
  show "committed w' = (if first_error out = None then committed w @ d else committed w)"
    unfolding w'_def insert_data_to_neon_main_def t
    by (simp add: f(4) [symmetric] rollback_fields close_fields case_prod_beta
        split: option.splits exn.splits)
  show "connected out \<Longrightarrow> \<not> is_open w' \<and> pending w' = []"
    unfolding w'_def insert_data_to_neon_main_def t
    by (simp add: f(1) close_fields case_prod_beta)
  show "\<not> connected out \<Longrightarrow> is_open w' = is_open w \<and> pending w' = pending w"
    unfolding w'_def insert_data_to_neon_main_def t
    using p f(5) by (simp add: f(1) case_prod_beta split: option.splits exn.splits)
qed


lemma insert_tally_world:
  "snd (insert_data_to_neon_tally out d w) = snd (insert_data_to_neon_main out d w)"
  by (simp add: insert_data_to_neon_tally_def insert_data_to_neon_main_def case_prod_beta
      split: option.splits exn.splits)

lemma calls_reached_prefix: "prefix (calls_reached out d) (try_calls d)"
  by (simp add: calls_reached_def take_is_prefix)

lemma calls_reached_all: "first_error out = None \<Longrightarrow> calls_reached out d = try_calls d"
  by (auto simp: run_defs split: option.splits if_splits)

lemma first_error_None_iff:
  "first_error out = None \<longleftrightarrow>
     connect_res out = None \<and> set_autocommit_res out = None \<and> cursor_res out = None
       \<and> execute_res out = None \<and> commit_res out = None"
  by (auto simp: run_defs split: option.splits if_splits)

text \<open>
  C1. In main.py and in tallyDealers.py (and verifiedDealers.py, whose function is that of
  tallyDealers.py), whatever the driver does: the calls made are those of the \<open>try\<close> block
  up to the first that raises, in the order connect, autocommit off, cursor, one batch, one
  commit, followed by a rollback when the exception was a database error on an open
  connection, followed by the closing of the connection whenever one was opened. The table
  ends with the whole batch added when nothing raised and unchanged otherwise, also when the
  batch had written some rows before it failed. After the run an opened connection is closed
  and no uncommitted row is left; when no connection could be opened there is none to close.
\<close>

theorem insert_data_to_neon_transaction:
  "\<forall>insert \<in> {insert_data_to_neon_main, insert_data_to_neon_tally}.
     calls (snd (insert out d w)) = calls w @ calls_reached out d @ cleanup_calls out
     \<and> committed (snd (insert out d w)) =
         (if first_error out = None then committed w @ d else committed w)
     \<and> (connected out \<longrightarrow>
          \<not> is_open (snd (insert out d w)) \<and> pending (snd (insert out d w)) = [])
     \<and> (\<not> connected out \<longrightarrow>
          is_open (snd (insert out d w)) = is_open w \<and> pending (snd (insert out d w)) = pending w)"
  using insert_main_run [of out d w] by (simp add: insert_tally_world)


lemmas sample_defs = fresh_world_def healthy_def failing_batch_def dealer_a_def dealer_b_def

theorem insert_data_to_neon_transaction_witness:
  "connected (failing_batch :: unit outside)
   \<and> calls (snd (insert_data_to_neon_tally (failing_batch :: unit outside) [5, 6 :: nat] fresh_world))
       = [Connect, SetAutocommit False, Cursor, ExecuteBatch [5, 6], Rollback, Close]
   \<and> committed (snd (insert_data_to_neon_tally (failing_batch :: unit outside) [5, 6 :: nat] fresh_world)) = []
   \<and> \<not> is_open (snd (insert_data_to_neon_tally (failing_batch :: unit outside) [5, 6 :: nat] fresh_world))
   \<and> committed (snd (insert_data_to_neon_main (healthy :: unit outside) [5, 6 :: nat] fresh_world)) = [5, 6]
   \<and> \<not> connected (healthy\<lparr>connect_res := Some DbError\<rparr> :: unit outside)
   \<and> is_open (snd (insert_data_to_neon_main (healthy\<lparr>connect_res := Some DbError\<rparr> :: unit outside)
         [5, 6 :: nat] fresh_world)) = False"
proof -
  have a: "connected (failing_batch :: unit outside)"
    "first_error (failing_batch :: unit outside) = Some DbError"
    "calls_reached (failing_batch :: unit outside) [5, 6 :: nat]
       = [Connect, SetAutocommit False, Cursor, ExecuteBatch [5, 6]]"
    "first_error (healthy :: unit outside) = None"
    "\<not> connected (healthy\<lparr>connect_res := Some DbError\<rparr> :: unit outside)"
    by (simp_all add: run_defs sample_defs)
  show ?thesis
    using insert_data_to_neon_transaction [of "failing_batch :: unit outside" "[5, 6 :: nat]" fresh_world]
      insert_data_to_neon_transaction [of "healthy :: unit outside" "[5, 6 :: nat]" fresh_world]
      insert_data_to_neon_transaction [of "healthy\<lparr>connect_res := Some DbError\<rparr> :: unit outside"
        "[5, 6 :: nat]" fresh_world]
    by (simp add: a cleanup_calls_def fresh_world_def)
qed

lemma upsert_fields:
  "committed (snd (upsert_radar_geofence out dd k w)) = committed w"
  "pending (snd (upsert_radar_geofence out dd k w)) = pending w"
  "is_open (snd (upsert_radar_geofence out dd k w)) = is_open w"
  "calls (snd (upsert_radar_geofence out dd k w)) = calls w @ map HttpPut (geofence_requests k [dd])"
  by (simp_all add: upsert_radar_geofence_def record_call_def Let_def
      split: option.splits http_result.splits)

lemma geofence_requests_Cons:
  "geofence_requests k (dd # ds) = geofence_requests k [dd] @ geofence_requests k ds"
  by (simp split: option.splits)

lemma radar_import_fields:
  "committed (snd (radar_import out k ds n w)) = committed w
   \<and> pending (snd (radar_import out k ds n w)) = pending w
   \<and> is_open (snd (radar_import out k ds n w)) = is_open w
   \<and> calls (snd (radar_import out k ds n w)) = calls w @ map HttpPut (geofence_requests k ds)"
proof (induction ds arbitrary: n w)
  case Nil
  then show ?case by simp
next
  case (Cons dd ds)
  obtain b w1 where u: "upsert_radar_geofence out dd k w = (b, w1)" by (cases "upsert_radar_geofence out dd k w")
  from upsert_fields [of out dd k w] u
  have f: "committed w1 = committed w" "pending w1 = pending w" "is_open w1 = is_open w"
    "calls w1 = calls w @ map HttpPut (geofence_requests k [dd])" by simp_all
  show ?case
    using Cons.IH [of "n + 1" w1] Cons.IH [of n w1]
    by (cases b) (simp_all add: u f geofence_requests_Cons [of k dd ds] del: geofence_requests.simps)
qed

lemma length_geofence_requests: "length (geofence_requests k ds) \<le> length ds"
  by (induction ds) (auto split: option.splits)


lemma insert_radar_run:
  fixes w :: "('n dealer, 'n request) world" and out d radar_key
  defines "w' \<equiv> snd (insert_data_to_neon_radar out d radar_key w)"
  shows "calls w' = calls w @ calls_reached out d
           @ (if first_error out = None then geofence_calls radar_key d else [])
           @ cleanup_calls out"
    and "committed w' = (if first_error out = None then committed w @ d else committed w)"
    and "connected out \<Longrightarrow> \<not> is_open w' \<and> pending w' = []"
proof -
  obtain conn r w1 where t: "insert_try_block out d w = (conn, r, w1)"
    by (metis prod_cases3)
  from try_block_conn [of out d w] try_block_error [of out d w] try_block_calls [of out d w]
    try_block_committed [of out d w] t
  have f: "conn = connected out" "r = first_error out" "calls w1 = calls w @ calls_reached out d"
    "committed w1 = (if first_error out = None then committed w @ d else committed w)"
    by simp_all
  define g where "g = (case r of
        None \<Rightarrow> (case radar_key of None \<Rightarrow> w1
                  | Some k \<Rightarrow> if k \<noteq> [] then snd (radar_import out k d 0 w1) else w1)
      | Some e \<Rightarrow> w1)"
  have g: "calls g = calls w1 @ (if r = None then geofence_calls radar_key d else [])"
    "committed g = committed w1"
    by (simp_all add: g_def geofence_calls_def radar_import_fields split: option.splits)
  have w': "w' = (let (r2, w2) = (case r of None \<Rightarrow> (None, g)
                      | Some DbError \<Rightarrow> (if conn then rollback out g else (None, g))
                      | Some OtherError \<Rightarrow> (None, g))
                  in if conn then close w2 else w2)"
    unfolding w'_def insert_data_to_neon_radar_def t g_def
    by (simp add: case_prod_beta Let_def split: option.splits exn.splits)
  show "calls w' = calls w @ calls_reached out d
           @ (if first_error out = None then geofence_calls radar_key d else [])
           @ cleanup_calls out"
    unfolding w'
    by (simp add: g f(3) f(1,2) [symmetric] cleanup_calls_def rollback_fields close_fields
        case_prod_beta split: option.splits exn.splits)
  show "committed w' = (if first_error out = None then committed w @ d else committed w)"
    unfolding w'
    by (simp add: g f(4) [symmetric] rollback_fields close_fields case_prod_beta
        split: option.splits exn.splits)
  show "connected out \<Longrightarrow> \<not> is_open w' \<and> pending w' = []"
    unfolding w' by (simp add: f(1) close_fields case_prod_beta)
qed

lemma no_put_in_try_calls: "filter is_put (calls_reached out d) = []"
  by (simp add: calls_reached_def try_calls_def filter_empty_conv)
    (auto dest!: in_set_takeD)

lemma no_put_in_cleanup: "filter is_put (cleanup_calls out) = []"
  by (simp add: cleanup_calls_def)

lemma batches_in_try_calls: "length (filter is_batch (calls_reached out d)) \<le> 1"
proof -
  from calls_reached_prefix [of out d]
  obtain ys where ys: "try_calls d = calls_reached out d @ ys" by (auto simp: prefix_def)
  have "length (filter is_batch (calls_reached out d @ ys)) = 1"
    unfolding ys [symmetric] by (simp add: try_calls_def)
  then show ?thesis by simp
qed

lemma no_batch_in_cleanup: "filter is_batch (cleanup_calls out) = []"
  by (simp add: cleanup_calls_def)

lemma geofence_calls_puts:
  "filter is_put (geofence_calls radar_key d) = geofence_calls radar_key d"
  by (cases radar_key) (simp_all add: geofence_calls_def filter_map comp_def)

lemma geofence_calls_no_batch:
  "filter is_batch (geofence_calls radar_key d) = []"
  by (cases radar_key) (simp_all add: geofence_calls_def filter_map comp_def)

lemma geofence_calls_length:
  "length (geofence_calls radar_key d) \<le> length d"
  by (cases radar_key) (simp_all add: geofence_calls_def length_geofence_requests)

lemma geofence_calls_key:
  "geofence_calls radar_key d \<noteq> [] \<Longrightarrow> key_present radar_key"
  by (cases radar_key) (simp_all add: geofence_calls_def key_present_def split: if_splits)


text \<open>
  C3. In mainWithRadar.py the calls of a run are the calls of the \<open>try\<close> block up to the
  first that raises, then the geofence requests, then the rollback and the closing. Geofence
  requests are made only when no driver call raised and the key is present, and each comes
  after the commit. The requests are those of the records that have both coordinates, one
  each and in order, whatever the network answers, so none is repeated and there are at most
  as many as records. The batch is executed at most once.
\<close>

theorem geofences_after_commit:
  fixes w :: "('n dealer, 'n request) world" and out d radar_key
  defines "new \<equiv> calls_reached out d
           @ (if first_error out = None then geofence_calls radar_key d else [])
           @ cleanup_calls out"
  shows "calls (snd (insert_data_to_neon_radar out d radar_key w)) = calls w @ new
    \<and> committed (snd (insert_data_to_neon_radar out d radar_key w)) =
        (if first_error out = None then committed w @ d else committed w)
    \<and> (\<forall>i < length new. is_put (new ! i) \<longrightarrow>
          first_error out = None \<and> key_present radar_key \<and> (\<exists>j < i. new ! j = Commit))
    \<and> filter is_put new = (if first_error out = None then geofence_calls radar_key d else [])
    \<and> length (filter is_put new) \<le> length d
    \<and> length (filter is_batch new) \<le> 1"
proof (intro conjI)
  show "calls (snd (insert_data_to_neon_radar out d radar_key w)) = calls w @ new"
    unfolding new_def by (rule insert_radar_run)
  show "committed (snd (insert_data_to_neon_radar out d radar_key w)) =
        (if first_error out = None then committed w @ d else committed w)"
    by (rule insert_radar_run)
  show p: "filter is_put new = (if first_error out = None then geofence_calls radar_key d else [])"
    unfolding new_def
    by (simp add: no_put_in_try_calls no_put_in_cleanup geofence_calls_puts)
  show "length (filter is_put new) \<le> length d"
    unfolding p by (simp add: geofence_calls_length)
  show "length (filter is_batch new) \<le> 1"
    unfolding new_def
    using batches_in_try_calls [of out d]
    by (simp add: no_batch_in_cleanup geofence_calls_no_batch)
  show "\<forall>i < length new. is_put (new ! i) \<longrightarrow>
          first_error out = None \<and> key_present radar_key \<and> (\<exists>j < i. new ! j = Commit)"
  proof (intro allI impI)
    fix i assume i: "i < length new" and put: "is_put (new ! i)"
    then have "new ! i \<in> set (filter is_put new)" by simp
    then have ne: "filter is_put new \<noteq> []" by (metis empty_iff empty_set)
    with p have ok: "first_error out = None"
      and g: "geofence_calls radar_key d \<noteq> ([] :: ('n dealer, 'n request) call list)"
      by (auto split: if_splits)
    from g have key: "key_present radar_key" by (rule geofence_calls_key)
    from ok have new: "new = try_calls d @ geofence_calls radar_key d @ cleanup_calls out"
      by (simp add: new_def calls_reached_all)
    have "\<not> i < 5"
    proof
      assume "i < 5"
      have l: "length (try_calls d :: ('n dealer, 'n request) call list) = 5"
        by (simp add: try_calls_def)
      with \<open>i < 5\<close> have "new ! i = try_calls d ! i"
        unfolding new by (simp add: nth_append)
      moreover from l \<open>i < 5\<close> have "try_calls d ! i \<in> set (try_calls d :: ('n dealer, 'n request) call list)"
        by (intro nth_mem) simp
      ultimately have "new ! i \<in> set (try_calls d)" by simp
      with put show False by (auto simp: try_calls_def)
    qed
    moreover have "new ! 4 = Commit" unfolding new by (simp add: try_calls_def)
    ultimately have "\<exists>j < i. new ! j = Commit" by (intro exI [of _ 4]) simp
    with ok key show "first_error out = None \<and> key_present radar_key \<and> (\<exists>j < i. new ! j = Commit)"
      by simp
  qed
qed


theorem geofences_after_commit_witness:
  "first_error (healthy :: nat request outside) = None \<and> key_present (Some ''k'')
   \<and> calls (snd (insert_data_to_neon_radar healthy [dealer_a, dealer_b] (Some ''k'') fresh_world))
       = [Connect, SetAutocommit False, Cursor, ExecuteBatch [dealer_a, dealer_b], Commit,
          HttpPut (radar_request ''k'' dealer_a 26 91), Close]
   \<and> committed (snd (insert_data_to_neon_radar healthy [dealer_a, dealer_b] (Some ''k'') fresh_world))
       = [dealer_a, dealer_b]
   \<and> calls (snd (insert_data_to_neon_radar failing_batch [dealer_a, dealer_b] (Some ''k'') fresh_world))
       = [Connect, SetAutocommit False, Cursor, ExecuteBatch [dealer_a, dealer_b], Rollback, Close]"
proof -
  have a: "first_error (healthy :: nat request outside) = None"
    "calls_reached (healthy :: nat request outside) [dealer_a, dealer_b]
       = (try_calls [dealer_a, dealer_b] :: (nat dealer, nat request) call list)"
    "cleanup_calls (healthy :: nat request outside) = ([Close] :: (nat dealer, nat request) call list)"
    "first_error (failing_batch :: nat request outside) = Some DbError"
    "calls_reached (failing_batch :: nat request outside) [dealer_a, dealer_b]
       = ([Connect, SetAutocommit False, Cursor, ExecuteBatch [dealer_a, dealer_b]]
           :: (nat dealer, nat request) call list)"
    "cleanup_calls (failing_batch :: nat request outside)
       = ([Rollback, Close] :: (nat dealer, nat request) call list)"
    by (simp_all add: run_defs healthy_def failing_batch_def)
  have g: "(geofence_calls (Some ''k'') [dealer_a, dealer_b] :: (nat dealer, nat request) call list)
      = [HttpPut (radar_request ''k'' dealer_a 26 91)]"
    by (simp add: geofence_calls_def dealer_a_def dealer_b_def)
  have k: "key_present (Some ''k'')" by (simp add: key_present_def)
  show ?thesis
    using geofences_after_commit [of healthy "[dealer_a, dealer_b]" "Some ''k''" fresh_world]
      geofences_after_commit [of failing_batch "[dealer_a, dealer_b]" "Some ''k''" fresh_world]
    by (simp add: a g k try_calls_def fresh_world_def)
qed

text \<open>
  C4. For a record with both coordinates \<open>upsert_radar_geofence\<close> makes exactly one PUT, to
  the address of the dealer, whose form describes a circle of radius 50 at
  \<open>[longitude, latitude]\<close> with external identifier \<open>dealer:<id>\<close> and tag
  \<open>dealer\<close>; the description is the first 120 characters of \<open>str(name)\<close>, which is the
  name itself, or \<open>None\<close> spelled out when the record has no name. For a record that lacks
  a coordinate nothing is sent and the result is \<open>False\<close>.
\<close>

theorem upsert_radar_geofence_request:
  "(\<forall>lat lng. latitude dd = Some lat \<and> longitude dd = Some lng \<longrightarrow>
      calls (snd (upsert_radar_geofence out dd key w))
        = calls w @ [HttpPut (radar_request key dd lat lng)]
      \<and> url (radar_request key dd lat lng)
        = ''https://api.radar.io/v1/geofences/dealer/dealer:'' @ dealer_id dd
      \<and> map_of (data (radar_request key dd lat lng)) ''type'' = Some (Text ''circle'')
      \<and> map_of (data (radar_request key dd lat lng)) ''radius'' = Some (Text ''50'')
      \<and> map_of (data (radar_request key dd lat lng)) ''coordinates''
        = Some (JsonDumps (JArray [JFloat lng, JFloat lat]))
      \<and> map_of (data (radar_request key dd lat lng)) ''externalId''
        = Some (Text (''dealer:'' @ dealer_id dd))
      \<and> map_of (data (radar_request key dd lat lng)) ''tag'' = Some (Text ''dealer'')
      \<and> map_of (data (radar_request key dd lat lng)) ''description''
        = Some (Text (take 120 (case name dd of None \<Rightarrow> ''None'' | Some s \<Rightarrow> s))))
   \<and> (latitude dd = None \<or> longitude dd = None \<longrightarrow>
        upsert_radar_geofence out dd key w = (False, w))"
  by (auto simp: upsert_radar_geofence_def radar_request_def radar_payload_def record_call_def
      str_of_opt_def Let_def split: option.splits http_result.splits)


theorem upsert_radar_geofence_request_witness:
  "latitude dealer_a = Some 26 \<and> longitude dealer_a = Some 91
   \<and> calls (snd (upsert_radar_geofence healthy dealer_a ''k'' (fresh_world :: (unit, nat request) world)))
       = [HttpPut (radar_request ''k'' dealer_a 26 91)]
   \<and> map_of (data (radar_request ''k'' dealer_a 26 91)) ''coordinates''
       = Some (JsonDumps (JArray [JFloat 91, JFloat 26]))
   \<and> map_of (data (radar_request ''k'' dealer_a 26 91)) ''description''
       = Some (Text ''Asha Traders'')
   \<and> latitude dealer_b = None
   \<and> upsert_radar_geofence healthy dealer_b ''k'' (fresh_world :: (unit, nat request) world)
       = (False, fresh_world)"
proof -
  have a: "latitude dealer_a = Some 26" "longitude dealer_a = Some 91" "latitude dealer_b = None"
    "name dealer_a = Some ''Asha Traders''"
    by (simp_all add: dealer_a_def dealer_b_def)
  have c: "calls (fresh_world :: (unit, nat request) world) = []" by (simp add: fresh_world_def)
  show ?thesis
    using upsert_radar_geofence_request [of dealer_a healthy "''k''" "fresh_world :: (unit, nat request) world"]
      upsert_radar_geofence_request [of dealer_b healthy "''k''" "fresh_world :: (unit, nat request) world"]
    by (simp add: a c)
qed

lemma radar_metadata_keys:
  "fst ` set (radar_metadata dd) =
     {''dealerId'', ''phoneNo''}
     \<union> (if user_id dd \<noteq> 0 then {''userId''} else {})
     \<union> (if region dd \<noteq> None then {''region''} else {})
     \<union> (if area dd \<noteq> None then {''area''} else {})
     \<union> (if verification_status dd \<noteq> None then {''verificationStatus''} else {})"
  by (auto simp: radar_metadata_def)

text \<open>
  C10. No entry of the metadata dictionary has the value \<open>None\<close>. Its keys are
  \<open>dealerId\<close> and \<open>phoneNo\<close>, together with \<open>userId\<close> when the user id is not zero and
  \<open>region\<close>, \<open>area\<close> and \<open>verificationStatus\<close> when the record has them; in particular
  a user id of zero leaves no \<open>userId\<close> key. The object serialised into the request has
  the same keys and no null.
\<close>

theorem radar_metadata_no_none:
  "(\<forall>kv \<in> set (radar_metadata dd). snd kv \<noteq> None)
   \<and> (user_id dd = 0 \<longrightarrow> ''userId'' \<notin> fst ` set (radar_metadata dd))
   \<and> fst ` set (radar_metadata dd) =
       {''dealerId'', ''phoneNo''}
       \<union> (if user_id dd \<noteq> 0 then {''userId''} else {})
       \<union> (if region dd \<noteq> None then {''region''} else {})
       \<union> (if area dd \<noteq> None then {''area''} else {})
       \<union> (if verification_status dd \<noteq> None then {''verificationStatus''} else {})
   \<and> (\<exists>kvs. map_of (data (radar_request key dd lat lng)) ''metadata''
                 = Some (JsonDumps (JObject kvs))
          \<and> map fst kvs = map fst (radar_metadata dd)
          \<and> JNull \<notin> snd ` set kvs)"
proof (intro conjI)
  show n: "\<forall>kv \<in> set (radar_metadata dd). snd kv \<noteq> None"
    by (auto simp: radar_metadata_def)
  show k: "fst ` set (radar_metadata dd) =
       {''dealerId'', ''phoneNo''}
       \<union> (if user_id dd \<noteq> 0 then {''userId''} else {})
       \<union> (if region dd \<noteq> None then {''region''} else {})
       \<union> (if area dd \<noteq> None then {''area''} else {})
       \<union> (if verification_status dd \<noteq> None then {''verificationStatus''} else {})"
    by (rule radar_metadata_keys)
  show "user_id dd = 0 \<longrightarrow> ''userId'' \<notin> fst ` set (radar_metadata dd)"
    unfolding k by simp
  let ?kvs = "map (\<lambda>(k, v). (k, json_of_opt v :: 'b json)) (radar_metadata dd)"
  have "map_of (data (radar_request key dd lat lng)) ''metadata'' = Some (JsonDumps (JObject ?kvs))"
    by (simp add: radar_request_def radar_payload_def)
  moreover have "map fst ?kvs = map fst (radar_metadata dd)"
    by (simp add: case_prod_beta comp_def)
  moreover have "JNull \<notin> snd ` set ?kvs"
    using n by (auto simp: json_of_opt_def split: option.splits)
  ultimately show "\<exists>kvs. map_of (data (radar_request key dd lat lng)) ''metadata''
                 = Some (JsonDumps (JObject kvs))
          \<and> map fst kvs = map fst (radar_metadata dd)
          \<and> JNull \<notin> snd ` set kvs"
    by blast
qed

theorem radar_metadata_no_none_witness:
  "user_id dealer_a = 0 \<and> ''userId'' \<notin> fst ` set (radar_metadata dealer_a)
   \<and> None \<notin> snd ` set (radar_metadata dealer_a)
   \<and> radar_metadata dealer_a
       = [(''dealerId'', Some ''a1''), (''region'', Some ''East''), (''phoneNo'', Some [])]
   \<and> radar_metadata dealer_b
       = [(''dealerId'', Some ''b2''), (''userId'', Some ''12''), (''region'', Some ''East''),
          (''phoneNo'', Some [])]"
proof -
  have a: "user_id dealer_a = 0" by (simp add: dealer_a_def)
  have b: "radar_metadata dealer_a
       = [(''dealerId'', Some ''a1''), (''region'', Some ''East''), (''phoneNo'', Some [])]"
    by (simp add: radar_metadata_def dealer_a_def)
  have c: "radar_metadata dealer_b
       = [(''dealerId'', Some ''b2''), (''userId'', Some ''12''), (''region'', Some ''East''),
          (''phoneNo'', Some [])]"
    by (simp add: radar_metadata_def dealer_a_def dealer_b_def str_of_int_def str_of_nat.simps
        digit_char_def char_of_eq_iff)
  have "''userId'' \<notin> fst ` set (radar_metadata dealer_a)
      \<and> None \<notin> snd ` set (radar_metadata dealer_a)"
    using radar_metadata_no_none [of dealer_a] a by force
  with a b c show ?thesis by simp
qed

section \<open>Properties of the record assembly and of the numeric columns\<close>

lemma length_data_tuple_main: "length (data_tuple_main u row) = EXPECTED_COLUMNS_main"
  by (simp add: data_tuple_main_def EXPECTED_COLUMNS_main_def TARGET_COLUMNS_main_def)

lemma length_data_tuple_verified: "length (data_tuple_verified row) = EXPECTED_COLUMNS_verified"
  by (simp add: data_tuple_verified_def EXPECTED_COLUMNS_verified_def TARGET_COLUMNS_verified_def)

lemma data_tuple_main_columns:
  "data_tuple_main u row = map (column_value_main u row) TARGET_COLUMNS_main"
  by (simp add: data_tuple_main_def TARGET_COLUMNS_main_def column_value_main_def)

lemma data_tuple_verified_columns:
  "data_tuple_verified row = map row TARGET_COLUMNS_verified"
  by (simp add: data_tuple_verified_def TARGET_COLUMNS_verified_def)

lemma records_main_eq:
  "records_to_insert_main uuid4 i rows =
     map (\<lambda>(k, row). data_tuple_main (uuid4 k) row) (zip [i ..< i + length rows] rows)"
proof (induction rows arbitrary: i)
  case Nil
  then show ?case by simp
next
  case (Cons row rows)
  have "[i ..< i + length (row # rows)] = i # [Suc i ..< Suc i + length rows]"
    by (simp add: upt_rec)
  then show ?case
    using Cons.IH [of "Suc i"] by (simp add: length_data_tuple_main Let_def)
qed

lemma records_verified_eq: "records_to_insert_verified rows = map data_tuple_verified rows"
  by (induction rows) (simp_all add: length_data_tuple_verified Let_def)

text \<open>
  C5. In main.py and in verifiedDealers.py the loop yields exactly one tuple per row of the
  frame, in the order of the rows. Each tuple has \<open>EXPECTED_COLUMNS\<close> elements, the
  length of \<open>TARGET_COLUMNS\<close>, and its elements follow \<open>TARGET_COLUMNS\<close>: in
  verifiedDealers.py element \<open>j\<close> is the row's value in column \<open>TARGET_COLUMNS[j]\<close>, in
  main.py it is the value that feeds that column (\<open>column_value_main\<close>). The length test
  holds for every tuple, so no row is skipped.
\<close>

theorem one_tuple_per_row:
  "length (records_to_insert_main uuid4 i rows) = length rows
   \<and> (\<forall>k < length rows.
         records_to_insert_main uuid4 i rows ! k
           = map (column_value_main (uuid4 (i + k)) (rows ! k)) TARGET_COLUMNS_main
         \<and> length (records_to_insert_main uuid4 i rows ! k) = EXPECTED_COLUMNS_main)
   \<and> length (records_to_insert_verified rows) = length rows
   \<and> (\<forall>k < length rows.
         records_to_insert_verified rows ! k = map (rows ! k) TARGET_COLUMNS_verified
         \<and> length (records_to_insert_verified rows ! k) = EXPECTED_COLUMNS_verified)
   \<and> length (data_tuple_main u row) = EXPECTED_COLUMNS_main
   \<and> length (data_tuple_verified row) = EXPECTED_COLUMNS_verified"
proof (intro conjI allI impI)
  show "length (records_to_insert_main uuid4 i rows) = length rows"
    by (simp add: records_main_eq)
  show "length (records_to_insert_verified rows) = length rows"
    by (simp add: records_verified_eq)
  show "length (data_tuple_main u row) = EXPECTED_COLUMNS_main"
    by (rule length_data_tuple_main)
  show "length (data_tuple_verified row) = EXPECTED_COLUMNS_verified"
    by (rule length_data_tuple_verified)
next
  fix k assume k: "k < length rows"
  then have e: "records_to_insert_main uuid4 i rows ! k = data_tuple_main (uuid4 (i + k)) (rows ! k)"
    by (simp add: records_main_eq)
  show "records_to_insert_main uuid4 i rows ! k
           = map (column_value_main (uuid4 (i + k)) (rows ! k)) TARGET_COLUMNS_main"
    unfolding e by (rule data_tuple_main_columns)
  show "length (records_to_insert_main uuid4 i rows ! k) = EXPECTED_COLUMNS_main"
    unfolding e by (rule length_data_tuple_main)
next
  fix k assume k: "k < length rows"
  then have e: "records_to_insert_verified rows ! k = data_tuple_verified (rows ! k)"
    by (simp add: records_verified_eq)
  show "records_to_insert_verified rows ! k = map (rows ! k) TARGET_COLUMNS_verified"
    unfolding e by (rule data_tuple_verified_columns)
  show "length (records_to_insert_verified rows ! k) = EXPECTED_COLUMNS_verified"
    unfolding e by (rule length_data_tuple_verified)
qed

theorem one_tuple_per_row_witness:
  "(1 :: nat) < length [text_row, blank_row]
   \<and> length (records_to_insert_main sample_uuid4 0 [text_row, blank_row]) = 2
   \<and> length (records_to_insert_main sample_uuid4 0 [text_row, blank_row] ! 1) = 25
   \<and> records_to_insert_main sample_uuid4 0 [text_row, blank_row] ! 1
       = map (column_value_main ''uu'' blank_row) TARGET_COLUMNS_main
   \<and> length (records_to_insert_verified [text_row, blank_row]) = 2
   \<and> records_to_insert_verified [text_row, blank_row] ! 1 = replicate 16 PyNone"
proof -
  have a: "EXPECTED_COLUMNS_main = 25" "EXPECTED_COLUMNS_verified = 16"
    by (simp_all add: EXPECTED_COLUMNS_main_def TARGET_COLUMNS_main_def
        EXPECTED_COLUMNS_verified_def TARGET_COLUMNS_verified_def)
  have b: "sample_uuid4 (0 + 1) = ''uu''" by (simp add: sample_uuid4_def)
  have c: "map blank_row TARGET_COLUMNS_verified = replicate 16 PyNone"
    by (simp add: TARGET_COLUMNS_verified_def blank_row_def eval_nat_numeral)
  have d: "(1 :: nat) < length [text_row, blank_row]" by simp
  note t = one_tuple_per_row [of sample_uuid4 0 "[text_row, blank_row]" "''uu''" blank_row]
  have l: "length [text_row, blank_row] = 2" "[text_row, blank_row] ! 1 = blank_row" by simp_all
  from t d
  have "length (records_to_insert_main sample_uuid4 0 [text_row, blank_row]) = length [text_row, blank_row]"
    and "length (records_to_insert_main sample_uuid4 0 [text_row, blank_row] ! 1) = EXPECTED_COLUMNS_main"
    and "records_to_insert_main sample_uuid4 0 [text_row, blank_row] ! 1
       = map (column_value_main (sample_uuid4 (0 + 1)) ([text_row, blank_row] ! 1)) TARGET_COLUMNS_main"
    and "length (records_to_insert_verified [text_row, blank_row]) = length [text_row, blank_row]"
    and "records_to_insert_verified [text_row, blank_row] ! 1
       = map ([text_row, blank_row] ! 1) TARGET_COLUMNS_verified"
    by blast+
  then show ?thesis unfolding a b c l by (intro conjI; (assumption | simp))
qed

text \<open>
  C7. The coordinate columns do not end as the lambda intends. In a column with a readable
  cell, the cells that are missing or unreadable are NaN after \<open>apply\<close>, not \<open>None\<close>:
  the lambda returns \<open>None\<close> for them, and the float column built from the results
  stores it as NaN. Only a column without any readable cell ends with \<open>None\<close>.
\<close>

theorem numeric_float_col_keeps_nan:
  "numeric_float_col parse_int_cell [PyInt 26, PyNaN, PyStr ''n/a'']
     = [Number 26, FloatNaN, FloatNaN]
   \<and> numeric_float_col parse_int_cell [PyNaN, PyStr ''n/a''] = [ObjNone, ObjNone]"
  by (simp add: numeric_float_col_def series_apply_def to_numeric_coerce_def none_if_na_def)

end
